theory Spec2Isabelle
  imports Complex_Main "HOL-Library.AList"
begin

section \<open>Strings\<close>

text \<open>
  A JavaScript string is modelled as a \<^typ>\<open>string\<close>: a list of 8-bit code units, read as
  the code units \<open>0x00\<close> to \<open>0xFF\<close> of the source's strings.  The functions below
  are the methods of \<open>String.prototype\<close> that \<open>run.ts\<close> calls, on that range.
\<close>

definition isWhiteSpace :: "char \<Rightarrow> bool" where
  \<comment> \<open>The characters the regular expression \<open>\s\<close> matches and \<open>trimRight\<close> removes:
      TAB, LF, VT, FF, CR, SPACE and NO-BREAK SPACE.\<close>
  "isWhiteSpace c = ((of_char c :: nat) \<in> {9, 10, 11, 12, 13, 32, 160})"

definition toLowerChar :: "char \<Rightarrow> char" where
  \<comment> \<open>\<open>A\<close> to \<open>Z\<close>, and the upper-case letters \<open>0xC0\<close> to \<open>0xDE\<close> without the
      multiplication sign \<open>0xD7\<close>, move up by 32.\<close>
  "toLowerChar c =
     (let n = (of_char c :: nat)
      in if (65 \<le> n \<and> n \<le> 90) \<or> (192 \<le> n \<and> n \<le> 222 \<and> n \<noteq> 215)
         then char_of (n + 32) else c)"

definition toLowerCase :: "string \<Rightarrow> string" where
  "toLowerCase s = map toLowerChar s"

fun splitOn :: "(char \<Rightarrow> bool) \<Rightarrow> string \<Rightarrow> string list" where
  \<comment> \<open>\<open>s.split(sep)\<close> for a separator that matches one character: every separator
      character ends a piece, so \<open>n\<close> separators give \<open>n + 1\<close> pieces, some of them empty.\<close>
  "splitOn p [] = [[]]"
| "splitOn p (c # cs) =
     (if p c then [] # splitOn p cs
      else (case splitOn p cs of [] \<Rightarrow> [[c]] | w # ws \<Rightarrow> (c # w) # ws))"

definition startsWith :: "string \<Rightarrow> string \<Rightarrow> bool" where
  "startsWith s pre = (take (length pre) s = pre)"

fun replaceFirst :: "char \<Rightarrow> string \<Rightarrow> string" where
  \<comment> \<open>\<open>s.replace(c, "")\<close> with a string pattern of one character: only the first
      occurrence is removed.\<close>
  "replaceFirst c [] = []"
| "replaceFirst c (x # xs) = (if x = c then xs else x # replaceFirst c xs)"

definition trimRight :: "string \<Rightarrow> string" where
  "trimRight s = rev (dropWhile isWhiteSpace (rev s))"

fun join :: "string \<Rightarrow> string list \<Rightarrow> string" where
  "join sep [] = []"
| "join sep [x] = x"
| "join sep (x # y # ys) = x @ sep @ join sep (y # ys)"

fun digits :: "nat \<Rightarrow> nat \<Rightarrow> string" where
  \<comment> \<open>The decimal digits of a natural number, most significant first; the first
      argument bounds the number of digits.\<close>
  "digits 0 n = []"
| "digits (Suc k) n =
     (if n < 10 then [char_of (48 + n)]
      else digits k (n div 10) @ [char_of (48 + n mod 10)])"

definition showInt :: "int \<Rightarrow> string" where
  "showInt i = (if i < 0 then CHR ''-'' # digits (Suc (nat (- i))) (nat (- i))
                else digits (Suc (nat i)) (nat i))"


section \<open>Values\<close>

text \<open>
  \<open>JSON.parse\<close> returns a value without a static type, and the type annotations of
  \<open>run.ts\<close> are erased before it runs, so the functions that read the tool's report
  are modelled over the values themselves.  A number is an integer (the tool reports
  lines, columns and counts) together with the text that \<open>Number.prototype.toString\<close>
  gives for it: the decimal digits below \<open>2^53\<close>, rounded digits above, exponent notation
  from \<open>10^21\<close> up.  The model carries that text and does not compute it, except for the
  length of an array or a string, which is below \<open>2^32\<close>.  \<open>JBuiltin\<close> names a property that an object inherits
  from \<open>Object.prototype\<close>; such a value is never the result of \<open>JSON.parse\<close>.
\<close>

datatype jsval =
    JUndefined
  | JNull
  | JBool bool
  | JNum int string
  | JStr string
  | JArr "jsval list"
  | JObj "(string \<times> jsval) list"
  | JBuiltin string

datatype error =
    SyntaxError
  | TypeError
  | Thrown string
  | Error string

fun truthy :: "jsval \<Rightarrow> bool" where
  "truthy JUndefined = False"
| "truthy JNull = False"
| "truthy (JBool b) = b"
| "truthy (JNum n t) = (n \<noteq> 0)"
| "truthy (JStr s) = (s \<noteq> [])"
| "truthy (JArr xs) = True"
| "truthy (JObj kvs) = True"
| "truthy (JBuiltin f) = True"

definition Object_prototype :: "string \<Rightarrow> jsval" where
  \<comment> \<open>What an object without an own property of that name answers.\<close>
  "Object_prototype name =
     (if name \<in> set [''constructor'', ''__proto__'', ''hasOwnProperty'', ''isPrototypeOf'',
                      ''propertyIsEnumerable'', ''toLocaleString'', ''toString'', ''valueOf'',
                      ''__defineGetter__'', ''__defineSetter__'', ''__lookupGetter__'',
                      ''__lookupSetter__'']
      then JBuiltin name else JUndefined)"

definition lookupProp :: "(string \<times> jsval) list \<Rightarrow> string \<Rightarrow> jsval" where
  \<comment> \<open>\<open>obj[name]\<close> on an object: the own property, else the inherited one.\<close>
  "lookupProp kvs name =
     (case map_of kvs name of Some v \<Rightarrow> v | None \<Rightarrow> Object_prototype name)"

fun getProp :: "jsval \<Rightarrow> string \<Rightarrow> error + jsval" where
  \<comment> \<open>\<open>v.name\<close>.  Reading a property of \<open>undefined\<close> or \<open>null\<close> throws a TypeError.
      On arrays, strings, numbers and booleans the function is applied only to the
      property names that \<open>run.ts\<close> spells out, none of which their prototypes define.\<close>
  "getProp JUndefined name = Inl TypeError"
| "getProp JNull name = Inl TypeError"
| "getProp (JObj kvs) name = Inr (lookupProp kvs name)"
| "getProp (JArr xs) name =
     Inr (if name = ''length''
          then JNum (int (length xs)) (showInt (int (length xs))) else JUndefined)"
| "getProp (JStr s) name =
     Inr (if name = ''length''
          then JNum (int (length s)) (showInt (int (length s))) else JUndefined)"
| "getProp (JBool b) name = Inr JUndefined"
| "getProp (JNum n t) name = Inr JUndefined"
| "getProp (JBuiltin f) name = Inr JUndefined"

fun setProp :: "jsval \<Rightarrow> string \<Rightarrow> jsval \<Rightarrow> jsval" where
  \<comment> \<open>\<open>obj.name = v\<close>; \<open>run.ts\<close> assigns to properties of objects only.\<close>
  "setProp (JObj kvs) name v = JObj (AList.update name v kvs)"
| "setProp other name v = other"

definition bind :: "error + 'a \<Rightarrow> ('a \<Rightarrow> error + 'b) \<Rightarrow> error + 'b" where
  \<comment> \<open>Sequencing: an exception ends the computation.\<close>
  "bind m f = (case m of Inl e \<Rightarrow> Inl e | Inr v \<Rightarrow> f v)"

fun mapE :: "('a \<Rightarrow> error + 'b) \<Rightarrow> 'a list \<Rightarrow> error + 'b list" where
  \<comment> \<open>A callback applied to the elements in order; the first exception ends the loop.\<close>
  "mapE f [] = Inr []"
| "mapE f (x # xs) = bind (f x) (\<lambda>y. bind (mapE f xs) (\<lambda>ys. Inr (y # ys)))"

fun filterE :: "('a \<Rightarrow> error + bool) \<Rightarrow> 'a list \<Rightarrow> error + 'a list" where
  "filterE p [] = Inr []"
| "filterE p (x # xs) =
     bind (p x) (\<lambda>b. bind (filterE p xs) (\<lambda>ys. Inr (if b then x # ys else ys)))"


section \<open>Result parser: \<open>parseOutput\<close>\<close>

definition severityMap :: "(string \<times> jsval) list" where
  "severityMap =
     [(''info'', JStr ''notice''),
      (''notice'', JStr ''notice''),
      (''minor'', JStr ''warning''),
      (''warning'', JStr ''warning''),
      (''error'', JStr ''failure''),
      (''major'', JStr ''failure''),
      (''critical'', JStr ''failure''),
      (''blocker'', JStr ''failure''),
      (''failure'', JStr ''failure'')]"

definition normalizeSeverity :: "string \<Rightarrow> jsval" where
  \<comment> \<open>Lines 191 and 192: the value assigned to \<open>issue.Severity\<close>.\<close>
  "normalizeSeverity label =
     (let Severity = toLowerCase label
      in if truthy (lookupProp severityMap Severity)
         then lookupProp severityMap Severity else JStr ''failure'')"

definition isIgnored :: "jsval \<Rightarrow> error + bool" where
  \<comment> \<open>The callback of \<open>filter\<close>, line 189.\<close>
  "isIgnored issue = bind (getProp issue ''Severity'') (\<lambda>s. Inr (s = JStr ''ignore''))"

definition normalizeIssue :: "jsval \<Rightarrow> error + jsval" where
  \<comment> \<open>The callback of \<open>map\<close>, lines 190 to 194.  \<open>toLowerCase\<close> is a method of
      strings only.\<close>
  "normalizeIssue issue =
     bind (getProp issue ''Severity'')
       (\<lambda>s. case s of
              JStr label \<Rightarrow> Inr (setProp issue ''Severity'' (normalizeSeverity label))
            | _ \<Rightarrow> Inl TypeError)"

definition parseOutput :: "(string \<Rightarrow> jsval option) \<Rightarrow> string \<Rightarrow> error + jsval" where
  \<comment> \<open>\<open>JSON.parse\<close> is the parameter: \<open>None\<close> where it throws a SyntaxError.
      \<open>filter\<close> and \<open>map\<close> are methods of arrays only.\<close>
  "parseOutput JSON_parse json =
     (case JSON_parse json of
        None \<Rightarrow> Inl SyntaxError
      | Some lintOutput \<Rightarrow>
          bind (getProp lintOutput ''Report'') (\<lambda>report.
            if \<not> truthy report then Inl (Thrown ''golangci-lint returned invalid json'')
            else
              bind (getProp lintOutput ''Issues'') (\<lambda>issues.
              bind (getProp issues ''length'') (\<lambda>len.
                if truthy len then
                  (case issues of
                     JArr xs \<Rightarrow>
                       bind (filterE isIgnored xs) (\<lambda>kept.
                       bind (mapE normalizeIssue kept) (\<lambda>mapped.
                         Inr (setProp lintOutput ''Issues'' (JArr mapped))))
                   | _ \<Rightarrow> Inl TypeError)
                else Inr lintOutput))))"


section \<open>Rendering values\<close>

definition builtinText :: "string \<Rightarrow> string" where
  \<comment> \<open>\<open>String(v)\<close> of an inherited property: the prototype object itself, or the
      source text of a native function.\<close>
  "builtinText name =
     (if name = ''__proto__'' then ''[object Object]''
      else ''function '' @ (if name = ''constructor'' then ''Object'' else name)
           @ ''() { [native code] }'')"

fun ToString :: "jsval \<Rightarrow> error + string"
  and ToStrings :: "jsval list \<Rightarrow> error + string list" where
  \<comment> \<open>\<open>String(v)\<close>, as a template literal and a computed property key apply it, and
      the texts of the elements of an array as \<open>join\<close> takes them (\<open>null\<close> and
      \<open>undefined\<close> as empty strings).  An array joins its elements with commas.  An
      object answers \<open>[object Object]\<close> through the \<open>toString\<close> it inherits; a parsed
      object with a property \<open>toString\<close> of its own has no method to call there, nor a
      \<open>valueOf\<close> that returns a primitive value, and the conversion throws a TypeError.\<close>
  "ToString JUndefined = Inr ''undefined''"
| "ToString JNull = Inr ''null''"
| "ToString (JBool b) = Inr (if b then ''true'' else ''false'')"
| "ToString (JNum n t) = Inr t"
| "ToString (JStr s) = Inr s"
| "ToString (JArr xs) = bind (ToStrings xs) (\<lambda>parts. Inr (join '','' parts))"
| "ToString (JObj kvs) =
     (if map_of kvs ''toString'' = None then Inr ''[object Object]'' else Inl TypeError)"
| "ToString (JBuiltin name) = Inr (builtinText name)"
| "ToStrings [] = Inr []"
| "ToStrings (x # xs) =
     bind (if x = JNull \<or> x = JUndefined then Inr [] else ToString x) (\<lambda>part.
     bind (ToStrings xs) (\<lambda>parts. Inr (part # parts)))"

definition errorText :: "error \<Rightarrow> string" where
  \<comment> \<open>What was thrown, as a template literal renders it: a thrown string is itself;
      of a built-in error only the name is kept, without the message of the engine.\<close>
  "errorText e =
     (case e of
        SyntaxError \<Rightarrow> ''SyntaxError''
      | TypeError \<Rightarrow> ''TypeError''
      | Thrown s \<Rightarrow> s
      | Error m \<Rightarrow> ''Error: '' @ m)"


section \<open>The host, and what a run does to it\<close>

record ExecRes =
  stdout :: string
  stderr :: string
  code :: "int option"

datatype ExecOutcome = Resolved ExecRes | Rejected ExecRes

record GithubAnnotation =
  path :: jsval
  start_line :: jsval
  end_line :: jsval
  start_column :: "jsval option"
  end_column :: "jsval option"
  title :: jsval
  message :: jsval
  annotation_level :: jsval
  raw_details :: "string option"

text \<open>
  The ambient context of \<open>run.ts\<close> as an explicit value: the inputs of the action
  (\<open>core.getInput\<close>, the empty string for an input that is not supplied), the event
  that started the workflow, the answer of the check-run API, and the library functions
  taken as they are (\<open>JSON.parse\<close>, \<open>exec\<close>, the file system, \<open>path.resolve\<close>, the
  clock).
\<close>

record host =
  getInput :: "string \<Rightarrow> string"
  eventName :: string
  checks_get :: "error + string"
  JSON_parse :: "string \<Rightarrow> jsval option"
  execShellCommand :: "string \<Rightarrow> string option \<Rightarrow> ExecOutcome"
  isDirectory :: "string \<Rightarrow> bool"
  path_resolve :: "string \<Rightarrow> string"
  elapsed :: int

datatype effect =
    Info string
  | SetFailed string
  | ChecksGet
  | ChecksUpdate string "GithubAnnotation list"
  | Exec string "string option"

definition getInputRequired :: "host \<Rightarrow> string \<Rightarrow> error + string" where
  \<comment> \<open>\<open>core.getInput(name, { required: true })\<close>: an input that is not supplied
      throws.\<close>
  "getInputRequired h name =
     (if getInput h name = [] then Inl (Error (''Input required and not supplied: '' @ name))
      else Inr (getInput h name))"

fun forEachE :: "('a \<Rightarrow> error + effect list) \<Rightarrow> 'a list \<Rightarrow> effect list \<times> (error + unit)" where
  \<comment> \<open>\<open>forEach\<close> with a callback that acts on the host: what was done before an
      exception stays done.\<close>
  "forEachE f [] = ([], Inr ())"
| "forEachE f (x # xs) =
     (case f x of
        Inl e \<Rightarrow> ([], Inl e)
      | Inr es \<Rightarrow> (case forEachE f xs of (es', r) \<Rightarrow> (es @ es', r)))"


section \<open>Logging: \<open>logLintIssues\<close>\<close>

definition logLintIssue :: "jsval \<Rightarrow> error + effect list" where
  \<comment> \<open>The callback of \<open>forEach\<close>, lines 201 to 212.\<close>
  "logLintIssue issue =
     bind (getProp issue ''Severity'') (\<lambda>sev.
     let severity = (if sev = JStr ''failure'' then ''error'' else ''warning'') in
     bind (getProp issue ''LineRange'') (\<lambda>lineRange.
     bind (if lineRange \<noteq> JUndefined
           then bind (getProp lineRange ''To'') (\<lambda>to.
                bind (ToString to) (\<lambda>toText. Inr (''-'' @ toText)))
           else bind (getProp issue ''Pos'') (\<lambda>pos.
                bind (getProp pos ''Column'') (\<lambda>column.
                  if truthy column
                  then bind (ToString column) (\<lambda>columnText. Inr ('':'' @ columnText))
                  else Inr [])))
       (\<lambda>until.
     bind (getProp issue ''Pos'') (\<lambda>pos.
     bind (getProp pos ''Filename'') (\<lambda>filename.
     bind (ToString filename) (\<lambda>filenameText.
     bind (getProp pos ''Line'') (\<lambda>line.
     bind (ToString line) (\<lambda>lineText.
     bind (getProp issue ''Text'') (\<lambda>text.
     bind (ToString text) (\<lambda>textText.
     bind (getProp issue ''FromLinter'') (\<lambda>fromLinter.
     bind (ToString fromLinter) (\<lambda>fromLinterText.
       Inr [Info (''::'' @ severity @ ''::'' @ filenameText @ '':'' @ lineText
                  @ until @ '' - '' @ textText @ '' ('' @ fromLinterText
                  @ '')'')]))))))))))))"

definition logLintIssues :: "jsval \<Rightarrow> effect list \<times> (error + unit)" where
  \<comment> \<open>\<open>forEach\<close> is a method of arrays only.\<close>
  "logLintIssues issues =
     (case issues of
        JArr xs \<Rightarrow> forEachE logLintIssue xs
      | _ \<Rightarrow> ([], Inl TypeError))"


section \<open>Annotation publisher: \<open>annotateLintIssues\<close>\<close>

definition chunkSize :: nat where
  "chunkSize = 50"

definition slice :: "'a list \<Rightarrow> nat \<Rightarrow> nat \<Rightarrow> 'a list" where
  \<comment> \<open>\<open>xs.slice(a, b)\<close> for \<open>0 \<le> a \<le> b\<close>: the elements at the indices from \<open>a\<close> up to
      but not including \<open>b\<close>, fewer where the array ends before.\<close>
  "slice xs a b = take (b - a) (drop a xs)"

definition chunks :: "'a list \<Rightarrow> 'a list list" where
  \<comment> \<open>Lines 251 and 252: \<open>Array.from({ length: Math.ceil(n / chunkSize) }, (v, i) =>
      xs.slice(i * chunkSize, i * chunkSize + chunkSize))\<close>.\<close>
  "chunks xs =
     map (\<lambda>i. slice xs (i * chunkSize) (i * chunkSize + chunkSize))
       [0 ..< nat \<lceil>(of_nat (length xs) :: rat) / of_nat chunkSize\<rceil>]"

definition joinLines :: "jsval \<Rightarrow> error + string" where
  \<comment> \<open>\<open>v.join("\n")\<close>; \<open>join\<close> is a method of arrays only.\<close>
  "joinLines v =
     (case v of
        JArr xs \<Rightarrow> bind (ToStrings xs) (\<lambda>parts. Inr (join [CHR 0x0A] parts))
      | _ \<Rightarrow> Inl TypeError)"

definition annotation :: "jsval \<Rightarrow> error + GithubAnnotation" where
  \<comment> \<open>The callback of \<open>map\<close>, lines 225 to 248.\<close>
  "annotation issue =
     bind (getProp issue ''Pos'') (\<lambda>pos.
     bind (getProp pos ''Filename'') (\<lambda>filename.
     bind (getProp pos ''Line'') (\<lambda>line.
     bind (getProp issue ''FromLinter'') (\<lambda>fromLinter.
     bind (getProp issue ''Text'') (\<lambda>text.
     bind (getProp issue ''Severity'') (\<lambda>severity.
     let a = \<lparr> path = filename, start_line = line, end_line = line,
               start_column = None, end_column = None,
               title = fromLinter, message = text, annotation_level = severity,
               raw_details = None \<rparr> in
     bind (getProp issue ''LineRange'') (\<lambda>lineRange.
     bind (if lineRange \<noteq> JUndefined
           then bind (getProp lineRange ''To'') (\<lambda>to. Inr (a\<lparr>end_line := to\<rparr>))
           else bind (getProp pos ''Column'') (\<lambda>column.
                  Inr (if truthy column
                       then a\<lparr>start_column := Some column, end_column := Some column\<rparr>
                       else a)))
       (\<lambda>a.
     bind (getProp issue ''Replacement'') (\<lambda>replacement.
       if replacement \<noteq> JNull
       then bind (getProp replacement ''NewLines'') (\<lambda>newLines.
            bind (joinLines newLines) (\<lambda>text.
              Inr (a\<lparr>raw_details :=
                        Some (replicate 3 (CHR 0x60) @ ''suggestion'' @ [CHR 0x0A] @ text
                              @ [CHR 0x0A] @ replicate 3 (CHR 0x60))\<rparr>)))
       else Inr a)))))))))"

definition annotateLintIssues :: "host \<Rightarrow> jsval \<Rightarrow> effect list \<times> (error + unit)" where
  \<comment> \<open>The token is read first, the check-run is asked for, the issues are mapped, the
      answer is awaited, and one update is sent for each chunk, in order.  The updates
      are not awaited.  \<open>map\<close> is a method of arrays only.\<close>
  "annotateLintIssues h issues =
     (case getInputRequired h ''github-token'' of
        Inl e \<Rightarrow> ([], Inl e)
      | Inr token \<Rightarrow>
          (case (case issues of JArr xs \<Rightarrow> mapE annotation xs | _ \<Rightarrow> Inl TypeError) of
             Inl e \<Rightarrow> ([ChecksGet], Inl e)
           | Inr githubAnnotations \<Rightarrow>
               (case checks_get h of
                  Inl e \<Rightarrow> ([ChecksGet], Inl e)
                | Inr currentTitle \<Rightarrow>
                    (ChecksGet # map (ChecksUpdate currentTitle) (chunks githubAnnotations),
                     Inr ()))))"


section \<open>Failure gate: \<open>hasFailingIssues\<close>\<close>

definition LintSeverity :: "(string \<times> jsval) list" where
  \<comment> \<open>The object that \<open>enum LintSeverity { notice, warning, failure }\<close> compiles to,
      with its reverse mapping from the numbers to the names, in the order in which
      \<open>Object.keys\<close> and \<open>Object.values\<close> enumerate it.\<close>
  "LintSeverity =
     [(''0'', JStr ''notice''),
      (''1'', JStr ''warning''),
      (''2'', JStr ''failure''),
      (''notice'', JNum 0 ''0''),
      (''warning'', JNum 1 ''1''),
      (''failure'', JNum 2 ''2'')]"

definition DefaultFailureSeverity :: int where
  "DefaultFailureSeverity = 0"

fun indexOf :: "jsval list \<Rightarrow> jsval \<Rightarrow> int" where
  \<comment> \<open>\<open>xs.indexOf(v)\<close>: the first index whose element is strictly equal to \<open>v\<close>, else
      \<open>-1\<close>.\<close>
  "indexOf [] v = - 1"
| "indexOf (x # xs) v =
     (if x = v then 0 else (let i = indexOf xs v in if i < 0 then - 1 else i + 1))"

definition failureSeverity :: "host \<Rightarrow> int" where
  \<comment> \<open>Lines 269 to 278: the value of \<open>failureSeverity\<close> when the issues are looked at.\<close>
  "failureSeverity h =
     (let userFailureSeverity = toLowerCase (getInput h ''failure-severity'');
          found = indexOf (map snd LintSeverity) (JStr userFailureSeverity)
      in if found < 0 then DefaultFailureSeverity else found)"

definition severityWarning :: "host \<Rightarrow> error + effect list" where
  \<comment> \<open>Lines 271 to 276: the line logged when the input names no severity.\<close>
  "severityWarning h =
     (let userFailureSeverity = toLowerCase (getInput h ''failure-severity'')
      in if indexOf (map snd LintSeverity) (JStr userFailureSeverity) < 0
         then bind (ToString (lookupProp LintSeverity (showInt DefaultFailureSeverity)))
                (\<lambda>defaultText.
                  Inr [Info (''::warning::failure-severity must be one of (''
                             @ join '' | '' (map fst LintSeverity) @ ''). '' @ [CHR 0x22]
                             @ userFailureSeverity @ [CHR 0x22]
                             @ '' not supported, using default ('' @ defaultText @ '')'')])
         else Inr [])"

definition severityAtLeast :: "jsval \<Rightarrow> int \<Rightarrow> error + bool" where
  \<comment> \<open>\<open>LintSeverity[sev] >= n\<close>.  The key is \<open>String(sev)\<close>.  What the enum object
      answers is a number, or a value that converts to NaN (a name of the reverse
      mapping, an inherited property, \<open>undefined\<close>), and every comparison with NaN is
      false.\<close>
  "severityAtLeast sev n =
     bind (ToString sev) (\<lambda>key.
       Inr (case lookupProp LintSeverity key of JNum k t \<Rightarrow> k \<ge> n | _ \<Rightarrow> False))"

fun anyFailing :: "int \<Rightarrow> jsval list \<Rightarrow> error + bool" where
  \<comment> \<open>The loop of lines 283 to 287, with its early return.\<close>
  "anyFailing n [] = Inr False"
| "anyFailing n (issue # issues) =
     bind (getProp issue ''Severity'') (\<lambda>sev.
     bind (severityAtLeast sev n) (\<lambda>atLeast.
       if atLeast then Inr True else anyFailing n issues))"

definition hasFailingIssues :: "host \<Rightarrow> jsval \<Rightarrow> effect list \<times> (error + bool)" where
  \<comment> \<open>\<open>for ... of\<close> iterates the elements of an array and the characters of a string;
      no other value with a \<open>length\<close> is iterable.\<close>
  "hasFailingIssues h issues =
     (case severityWarning h of
        Inl e \<Rightarrow> ([], Inl e)
      | Inr logged \<Rightarrow>
          (logged,
           bind (getProp issues ''length'') (\<lambda>len.
             if truthy len then
               (if failureSeverity h \<le> 0 then Inr True
                else (case issues of
                        JArr xs \<Rightarrow> anyFailing (failureSeverity h) xs
                      | JStr s \<Rightarrow> anyFailing (failureSeverity h) (map (\<lambda>c. JStr [c]) s)
                      | _ \<Rightarrow> Inl TypeError))
             else Inr False)))"


section \<open>Execution driver: \<open>printOutput\<close> and \<open>runLint\<close>\<close>

definition processOutput :: "host \<Rightarrow> string \<Rightarrow> effect list \<times> (error + jsval)" where
  \<comment> \<open>Lines 297 to 315, the body of the inner \<open>try\<close> for a non-empty standard output:
      what was done, and the report or what was thrown.\<close>
  "processOutput h out =
     (case parseOutput (JSON_parse h) out of
        Inl e \<Rightarrow> ([], Inl e)
      | Inr lintOutput \<Rightarrow>
          (case getProp lintOutput ''Issues'' of
             Inl e \<Rightarrow> ([], Inl e)
           | Inr issues \<Rightarrow>
               (case logLintIssues issues of
                  (logged, Inl e) \<Rightarrow> (logged, Inl e)
                | (logged, Inr u) \<Rightarrow>
                    if eventName h = ''pull_request'' \<or> eventName h = ''push''
                    then (case annotateLintIssues h issues of
                            (sent, Inl e) \<Rightarrow> (logged @ sent, Inl e)
                          | (sent, Inr u) \<Rightarrow> (logged @ sent, Inr lintOutput))
                    else (logged, Inr lintOutput))))"

definition gate :: "host \<Rightarrow> int \<Rightarrow> jsval \<Rightarrow> effect list \<times> (error + unit)" where
  \<comment> \<open>Lines 324 to 334: the exit code against the report (\<open>undefined\<close> when nothing was
      parsed).\<close>
  "gate h exit_code lintOutput =
     (if exit_code = 1 then
        (if truthy lintOutput then
           (case getProp lintOutput ''Issues'' of
              Inl e \<Rightarrow> ([], Inl e)
            | Inr issues \<Rightarrow>
                (case hasFailingIssues h issues of
                   (logged, Inl e) \<Rightarrow> (logged, Inl e)
                 | (logged, Inr failing) \<Rightarrow>
                     (logged, if failing then Inl (Thrown ''issues found'') else Inr ())))
         else ([], Inl (Thrown
                 ''unexpected state, golangci-lint exited with 1, but provided no lint output'')))
      else if exit_code > 1 then
        ([], Inl (Thrown (''golangci-lint exit with code '' @ showInt exit_code)))
      else ([], Inr ()))"

definition printOutput :: "host \<Rightarrow> ExecRes \<Rightarrow> effect list" where
  "printOutput h res =
     (let exit_code = (case code res of Some c \<Rightarrow> if c \<noteq> 0 then c else 0 | None \<Rightarrow> 0)
      in case (if stdout res \<noteq> [] then processOutput h (stdout res) else ([], Inr JUndefined)) of
           (sofar, Inl e) \<Rightarrow>
             sofar @ [SetFailed (''there was an error processing golangci-lint output: ''
                                @ errorText e)]
         | (sofar, Inr lintOutput) \<Rightarrow>
             (let logged = sofar @ (if stderr res \<noteq> [] then [Info (stderr res)] else [])
              in case gate h exit_code lintOutput of
                   (checked, Inl e) \<Rightarrow> logged @ checked @ [SetFailed (errorText e)]
                 | (checked, Inr u) \<Rightarrow>
                     logged @ checked @ [Info ''golangci-lint found no blocking issues'']))"

definition userArgNames :: "string \<Rightarrow> string list" where
  \<comment> \<open>Lines 351 to 358; \<open>arg.split("=")[0]\<close> is the text before the first \<open>=\<close>.\<close>
  "userArgNames userArgs =
     map (replaceFirst (CHR ''-''))
       (filter (\<lambda>arg. startsWith arg ''-'')
         (map (takeWhile (\<lambda>c. c \<noteq> CHR ''=''))
           (splitOn isWhiteSpace userArgs)))"

definition debugCache :: "host \<Rightarrow> string \<Rightarrow> effect list \<times> (error + unit)" where
  \<comment> \<open>Lines 342 to 346.  \<open>printOutput\<close> is not awaited here; what it does is listed
      where it is called.  A command that fails rejects, and nothing catches it.\<close>
  "debugCache h lintPath =
     (if ''cache'' \<in> set (splitOn (\<lambda>c. c = CHR '','') (getInput h ''debug'')) then
        (case execShellCommand h (lintPath @ '' cache status'') None of
           Resolved res \<Rightarrow> (Exec (lintPath @ '' cache status'') None # printOutput h res, Inr ())
         | Rejected exc \<Rightarrow>
             ([Exec (lintPath @ '' cache status'') None],
              Inl (Error (''Command failed: '' @ lintPath @ '' cache status''))))
      else ([], Inr ()))"

definition runLint :: "host \<Rightarrow> string \<Rightarrow> string \<Rightarrow> effect list \<times> (error + unit)" where
  "runLint h lintPath patchPath =
     (case debugCache h lintPath of
        (sofar, Inl e) \<Rightarrow> (sofar, Inl e)
      | (sofar, Inr u) \<Rightarrow>
          (let userArgs = getInput h ''args'';
               names = set (userArgNames userArgs);
               workingDirectory = getInput h ''working-directory''
           in if ''out-format'' \<in> names then
                (sofar, Inl (Error (''please, don't change out-format for golangci-lint: ''
                                   @ ''it can be broken in a future'')))
              else if patchPath \<noteq> [] \<and> (''new'' \<in> names \<or> ''new-from-rev'' \<in> names
                                        \<or> ''new-from-patch'' \<in> names) then
                (sofar, Inl (Error (''please, don't specify manually --new* args ''
                                   @ ''when requesting only new issues'')))
              else if workingDirectory \<noteq> [] \<and> patchPath \<noteq> [] then
                (sofar, Inl (Error
                   ''options working-directory and only-new-issues aren't compatible''))
              else if workingDirectory \<noteq> [] \<and> \<not> isDirectory h workingDirectory then
                (sofar, Inl (Error (''working-directory ('' @ workingDirectory
                                   @ '') was not a path'')))
              else
                (let addedArgs =
                       [''--out-format=json'']
                       @ (if patchPath \<noteq> []
                          then [''--new-from-patch='' @ patchPath, ''--new=false'',
                                ''--new-from-rev='']
                          else [])
                       @ (if workingDirectory \<noteq> [] \<and> ''path-prefix'' \<notin> names
                          then [''--path-prefix='' @ workingDirectory] else []);
                     cwd = (if workingDirectory \<noteq> []
                            then Some (path_resolve h workingDirectory) else None);
                     cmd = trimRight (lintPath @ '' run '' @ join '' '' addedArgs @ '' ''
                                      @ userArgs);
                     res = (case execShellCommand h cmd cwd of
                              Resolved r \<Rightarrow> r | Rejected exc \<Rightarrow> exc)
                 in (sofar
                     @ [Info (''Running ['' @ cmd @ ''] in [''
                              @ (case cwd of Some d \<Rightarrow> d | None \<Rightarrow> []) @ ''] ...''),
                        Exec cmd cwd]
                     @ printOutput h res
                     @ [Info (''Ran golangci-lint in '' @ showInt (elapsed h) @ ''ms'')],
                     Inr ()))))"


section \<open>Calls to the review-surface API\<close>

fun isApiCall :: "effect \<Rightarrow> bool" where
  "isApiCall ChecksGet = True"
| "isApiCall (ChecksUpdate t as) = True"
| "isApiCall e = False"


section \<open>Example inputs\<close>

definition exampleHost :: host where
  "exampleHost =
     \<lparr> getInput = (\<lambda>name. if name = ''github-token'' then ''t0ken''
                           else if name = ''failure-severity'' then ''warning'' else []),
       eventName = ''push'',
       checks_get = Inr ''lint'',
       JSON_parse = (\<lambda>s. None),
       execShellCommand = (\<lambda>cmd cwd. Resolved \<lparr> stdout = [], stderr = [], code = None \<rparr>),
       isDirectory = (\<lambda>d. False),
       path_resolve = (\<lambda>d. d),
       elapsed = 0 \<rparr>"

definition strictHost :: host where
  "strictHost =
     exampleHost\<lparr>getInput := (\<lambda>name. if name = ''failure-severity'' then ''Failure'' else [])\<rparr>"

definition doubleDashHost :: host where
  "doubleDashHost =
     exampleHost\<lparr>getInput := (\<lambda>name. if name = ''args'' then ''--out-format=xml'' else [])\<rparr>"

definition singleDashHost :: host where
  "singleDashHost =
     exampleHost\<lparr>getInput := (\<lambda>name. if name = ''args'' then ''-out-format=xml'' else [])\<rparr>"

definition exampleIssue :: jsval where
  "exampleIssue =
     JObj [(''FromLinter'', JStr ''govet''), (''Text'', JStr ''unused''),
           (''Severity'', JStr ''failure''),
           (''Pos'', JObj [(''Filename'', JStr ''a.go''), (''Line'', JNum 3 ''3''),
                           (''Column'', JNum 7 ''7'')]),
           (''Replacement'', JNull)]"

definition exampleAnnotation :: GithubAnnotation where
  "exampleAnnotation =
     \<lparr> path = JStr ''a.go'', start_line = JNum 3 ''3'', end_line = JNum 3 ''3'',
       start_column = Some (JNum 7 ''7''), end_column = Some (JNum 7 ''7''),
       title = JStr ''govet'', message = JStr ''unused'', annotation_level = JStr ''failure'',
       raw_details = None \<rparr>"

definition exampleRangeIssue :: jsval where
  "exampleRangeIssue =
     JObj [(''FromLinter'', JStr ''gofmt''), (''Text'', JStr ''format''),
           (''Severity'', JStr ''failure''),
           (''Pos'', JObj [(''Filename'', JStr ''b.go''), (''Line'', JNum 10 ''10''),
                           (''Column'', JNum 2 ''2'')]),
           (''LineRange'', JObj [(''From'', JNum 10 ''10''), (''To'', JNum 12 ''12'')]),
           (''Replacement'', JObj [(''NeedOnlyDelete'', JBool False),
                                   (''NewLines'', JArr [JStr ''x'', JStr ''y''])])]"

definition exampleRangeAnnotation :: GithubAnnotation where
  "exampleRangeAnnotation =
     \<lparr> path = JStr ''b.go'', start_line = JNum 10 ''10'', end_line = JNum 12 ''12'',
       start_column = None, end_column = None,
       title = JStr ''gofmt'', message = JStr ''format'', annotation_level = JStr ''failure'',
       raw_details = Some (replicate 3 (CHR 0x60) @ ''suggestion'' @ [CHR 0x0A] @ ''x''
                           @ [CHR 0x0A] @ ''y'' @ [CHR 0x0A] @ replicate 3 (CHR 0x60)) \<rparr>"

definition exampleReport :: jsval where
  "exampleReport =
     JObj [(''Issues'', JArr [JObj [(''Severity'', JStr ''ignore''), (''Text'', JStr ''a'')],
                              JObj [(''Severity'', JStr ''error''), (''Text'', JStr ''b'')]]),
           (''Report'', JObj [])]"

definition exampleParsed :: jsval where
  "exampleParsed =
     JObj [(''Issues'', JArr [JObj [(''Severity'', JStr ''failure''), (''Text'', JStr ''a'')]]),
           (''Report'', JObj [])]"

definition ignoredIssue :: jsval where
  "ignoredIssue =
     JObj [(''Severity'', JStr ''ignore''), (''FromLinter'', JStr ''govet''),
           (''Text'', JStr ''unused''),
           (''Pos'', JObj [(''Filename'', JStr ''a.go''), (''Line'', JNum 3 ''3''),
                           (''Column'', JNum 7 ''7'')]),
           (''Replacement'', JNull)]"

definition ignoredRangeIssue :: jsval where
  "ignoredRangeIssue =
     JObj [(''Severity'', JStr ''ignore''), (''FromLinter'', JStr ''gofmt''),
           (''Text'', JStr ''format''),
           (''Pos'', JObj [(''Filename'', JStr ''b.go''), (''Line'', JNum 10 ''10''),
                           (''Column'', JNum 2 ''2'')]),
           (''LineRange'', JObj [(''From'', JNum 10 ''10''), (''To'', JNum 12 ''12'')]),
           (''Replacement'', JNull)]"

definition loggedIssue :: jsval where
  "loggedIssue =
     JObj [(''Severity'', JStr ''failure''), (''FromLinter'', JStr ''govet''),
           (''Text'', JStr ''unused''),
           (''Pos'', JObj [(''Filename'', JStr ''a.go''), (''Line'', JNum 3 ''3''),
                           (''Column'', JNum 7 ''7'')]),
           (''Replacement'', JNull)]"

definition loggedRangeIssue :: jsval where
  "loggedRangeIssue =
     JObj [(''Severity'', JStr ''failure''), (''FromLinter'', JStr ''gofmt''),
           (''Text'', JStr ''format''),
           (''Pos'', JObj [(''Filename'', JStr ''b.go''), (''Line'', JNum 10 ''10''),
                           (''Column'', JNum 2 ''2'')]),
           (''LineRange'', JObj [(''From'', JNum 10 ''10''), (''To'', JNum 12 ''12'')]),
           (''Replacement'', JNull)]"

definition scheduledParsed :: jsval where
  "scheduledParsed =
     JObj [(''Issues'', JArr [loggedIssue, loggedRangeIssue]), (''Report'', JObj [])]"

definition scheduledHost :: host where
  "scheduledHost =
     exampleHost\<lparr>eventName := ''schedule'',
                 JSON_parse := (\<lambda>s. Some (JObj [(''Issues'',
                                               JArr [ignoredIssue, ignoredRangeIssue]),
                                              (''Report'', JObj [])]))\<rparr>"

definition scheduledRes :: ExecRes where
  "scheduledRes = \<lparr> stdout = ''{}'', stderr = [], code = Some 1 \<rparr>"


section \<open>Sequencing and loops\<close>

lemma bind_Inr_iff: "bind m f = Inr y \<longleftrightarrow> (\<exists>v. m = Inr v \<and> f v = Inr y)"
  by (cases m) (simp_all add: bind_def)

lemma bind_Inr [simp]: "bind (Inr v) f = f v"
  by (simp add: bind_def)

lemma bind_Inl [simp]: "bind (Inl e) f = Inl e"
  by (simp add: bind_def)

lemma filterE_kept: "filterE p xs = Inr ys \<Longrightarrow> y \<in> set ys \<Longrightarrow> p y = Inr True"
proof (induction xs arbitrary: ys)
  case Nil
  then show ?case by simp
next
  case (Cons x xs)
  then show ?case by (auto simp: bind_Inr_iff split: if_splits)
qed

lemma mapE_length: "mapE f xs = Inr ys \<Longrightarrow> length ys = length xs"
  by (induction xs arbitrary: ys) (auto simp: bind_Inr_iff)

lemma mapE_list_all2: "mapE f xs = Inr ys \<Longrightarrow> list_all2 (\<lambda>x y. f x = Inr y) xs ys"
  by (induction xs arbitrary: ys) (auto simp: bind_Inr_iff)

lemma mapE_replicate: "f x = Inr y \<Longrightarrow> mapE f (replicate n x) = Inr (replicate n y)"
  by (induction n) simp_all

lemma getProp_Inl: "getProp v name = Inl e \<Longrightarrow> e = TypeError"
  by (cases v) simp_all

lemma getProp_defined:
  "v \<noteq> JNull \<Longrightarrow> v \<noteq> JUndefined \<Longrightarrow> \<exists>r. getProp v name = Inr r"
  by (cases v) simp_all

lemma getProp_setProp_Severity:
  "getProp issue ''Severity'' = Inr (JStr s) \<Longrightarrow>
   getProp (setProp issue ''Severity'' v) ''Severity'' = Inr v"
  by (cases issue) (simp_all add: lookupProp_def update_conv')

lemma getProp_truthy_Report:
  "getProp v ''Report'' = Inr r \<Longrightarrow> truthy r \<Longrightarrow> \<exists>kvs. v = JObj kvs"
  by (cases v) (auto split: if_splits)


section \<open>Severity normalization\<close>






lemma normalizeSeverity_ignore: "normalizeSeverity ''ignore'' = JStr ''failure''"
  by code_simp






section \<open>The result parser\<close>

lemma mapE_normalized:
  "mapE normalizeIssue xs = Inr ys \<Longrightarrow> \<forall>x\<in>set xs. isIgnored x = Inr True \<Longrightarrow> y \<in> set ys
   \<Longrightarrow> getProp y ''Severity'' = Inr (JStr ''failure'')"
proof (induction xs arbitrary: ys)
  case Nil
  then show ?case by simp
next
  case (Cons x xs)
  then show ?case
    by (auto simp: bind_Inr_iff normalizeIssue_def isIgnored_def normalizeSeverity_ignore
        getProp_setProp_Severity split: jsval.splits)
qed

lemma filterE_isIgnored:
  "JNull \<notin> set xs \<Longrightarrow> JUndefined \<notin> set xs \<Longrightarrow>
   filterE isIgnored xs =
     Inr (filter (\<lambda>issue. getProp issue ''Severity'' = Inr (JStr ''ignore'')) xs)"
proof (induction xs)
  case Nil
  then show ?case by simp
next
  case (Cons x xs)
  then obtain r where "getProp x ''Severity'' = Inr r"
    using getProp_defined [of x "''Severity''"] by auto
  with Cons show ?case by (simp add: isIgnored_def)
qed

lemma mapE_normalizeIssue:
  "\<forall>x\<in>set xs. getProp x ''Severity'' = Inr (JStr ''ignore'') \<Longrightarrow>
   mapE normalizeIssue xs =
     Inr (map (\<lambda>issue. setProp issue ''Severity'' (normalizeSeverity ''ignore'')) xs)"
  by (induction xs) (simp_all add: normalizeIssue_def)

lemma parseOutput_exampleReport:
  "parseOutput (\<lambda>s. Some exampleReport) ''{}'' = Inr exampleParsed"
  by (simp add: parseOutput_def exampleReport_def exampleParsed_def lookupProp_def
      isIgnored_def normalizeIssue_def normalizeSeverity_ignore)

text \<open>
  Claim C2.  When the text parses to a value whose \<open>Report\<close> is there and whose
  \<open>Issues\<close> is a non-empty array of raw issues (values that have properties: anything
  but \<open>null\<close>), \<open>parseOutput\<close> returns that value with \<open>Issues\<close> replaced: exactly the
  raw issues whose \<open>Severity\<close> is the string \<open>ignore\<close> are kept, in their order, each
  with its \<open>Severity\<close> replaced by the normalization of \<open>ignore\<close>; every other issue is
  dropped.
\<close>

theorem parseOutput_keeps_ignored:
  assumes "parse json = Some lintOutput"
    and "getProp lintOutput ''Report'' = Inr report" and "truthy report"
    and "getProp lintOutput ''Issues'' = Inr (JArr issues)" and "issues \<noteq> []"
    and "JNull \<notin> set issues" and "JUndefined \<notin> set issues"
  shows "parseOutput parse json =
           Inr (setProp lintOutput ''Issues''
                 (JArr (map (\<lambda>issue. setProp issue ''Severity'' (normalizeSeverity ''ignore''))
                         (filter (\<lambda>issue. getProp issue ''Severity'' = Inr (JStr ''ignore''))
                           issues))))"
proof -
  have "mapE normalizeIssue
          (filter (\<lambda>issue. getProp issue ''Severity'' = Inr (JStr ''ignore'')) issues)
        = Inr (map (\<lambda>issue. setProp issue ''Severity'' (normalizeSeverity ''ignore''))
                (filter (\<lambda>issue. getProp issue ''Severity'' = Inr (JStr ''ignore'')) issues))"
    by (rule mapE_normalizeIssue) simp
  with assms show ?thesis
    by (simp add: parseOutput_def filterE_isIgnored)
qed

theorem parseOutput_keeps_ignored_witness:
  "parseOutput (\<lambda>s. Some exampleReport) ''{}'' = Inr exampleParsed"
  using parseOutput_keeps_ignored [of "\<lambda>s. Some exampleReport" "''{}''" exampleReport "JObj []"
      "[JObj [(''Severity'', JStr ''ignore''), (''Text'', JStr ''a'')],
        JObj [(''Severity'', JStr ''error''), (''Text'', JStr ''b'')]]"]
  by (simp add: exampleReport_def exampleParsed_def lookupProp_def normalizeSeverity_ignore)

text \<open>
  Claim C3.  Whenever \<open>parseOutput\<close> succeeds, every issue of the report it returns has
  the severity \<open>failure\<close>: either the array of issues was empty and is returned as it
  was, or only issues with the severity \<open>ignore\<close> were kept, and \<open>ignore\<close> is not a key
  of the alias table.
\<close>

theorem parseOutput_all_failure:
  assumes "parseOutput parse json = Inr out"
    and "getProp out ''Issues'' = Inr (JArr xs)"
    and "x \<in> set xs"
  shows "getProp x ''Severity'' = Inr (JStr ''failure'')"
proof -
  from assms(1) obtain lintOutput report issues len where
    r: "getProp lintOutput ''Report'' = Inr report" "truthy report"
    and i: "getProp lintOutput ''Issues'' = Inr issues"
    and l: "getProp issues ''length'' = Inr len"
    and rest: "(if truthy len then
                  (case issues of
                     JArr xs \<Rightarrow>
                       bind (filterE isIgnored xs) (\<lambda>kept.
                       bind (mapE normalizeIssue kept) (\<lambda>mapped.
                         Inr (setProp lintOutput ''Issues'' (JArr mapped))))
                   | _ \<Rightarrow> Inl TypeError)
                else Inr lintOutput) = Inr out"
    by (auto simp: parseOutput_def bind_Inr_iff split: option.splits if_splits)
  from r obtain kvs where kvs: "lintOutput = JObj kvs"
    using getProp_truthy_Report by blast
  show ?thesis
  proof (cases "truthy len")
    case False
    with rest have "out = lintOutput" by simp
    with assms(2) i have "issues = JArr xs" by simp
    with l False have "xs = []" by auto
    with assms(3) show ?thesis by simp
  next
    case True
    with rest obtain ys kept mapped where
      k: "filterE isIgnored ys = Inr kept"
      and m: "mapE normalizeIssue kept = Inr mapped"
      and out: "out = setProp lintOutput ''Issues'' (JArr mapped)"
      by (auto simp: bind_Inr_iff split: jsval.splits)
    from out kvs assms(2) have "xs = mapped"
      by (simp add: lookupProp_def update_conv')
    moreover have "\<forall>x\<in>set kept. isIgnored x = Inr True"
      using filterE_kept [OF k] by simp
    ultimately show ?thesis
      using mapE_normalized [OF m] assms(3) by blast
  qed
qed

theorem parseOutput_all_failure_witness:
  "parseOutput (\<lambda>s. Some exampleReport) ''{}'' = Inr exampleParsed
   \<and> getProp exampleParsed ''Issues'' =
       Inr (JArr [JObj [(''Severity'', JStr ''failure''), (''Text'', JStr ''a'')]])
   \<and> getProp (JObj [(''Severity'', JStr ''failure''), (''Text'', JStr ''a'')]) ''Severity'' =
       Inr (JStr ''failure'')"
proof -
  have i: "getProp exampleParsed ''Issues'' =
       Inr (JArr [JObj [(''Severity'', JStr ''failure''), (''Text'', JStr ''a'')]])"
    by (simp add: exampleParsed_def lookupProp_def)
  show ?thesis
    using parseOutput_all_failure [OF parseOutput_exampleReport i,
        of "JObj [(''Severity'', JStr ''failure''), (''Text'', JStr ''a'')]"]
      parseOutput_exampleReport i
    by simp
qed

text \<open>
  Claim C5.  \<open>parseOutput\<close> fails on every text that is not well-formed (\<open>JSON.parse\<close>
  throws), and on every text whose parsed value has no \<open>Report\<close> to read or a \<open>Report\<close>
  that is absent (\<open>undefined\<close>, like every falsy value); the \<open>Issues\<close> of the value are
  not looked at.  What is thrown is the SyntaxError of \<open>JSON.parse\<close>, the TypeError of
  reading a property of \<open>null\<close>, or the string \<open>golangci-lint returned invalid json\<close>.
\<close>

theorem parseOutput_rejects:
  assumes "parse json = None
           \<or> (\<exists>v. parse json = Some v
                \<and> (case getProp v ''Report'' of Inl e \<Rightarrow> True | Inr r \<Rightarrow> \<not> truthy r))"
  shows "parseOutput parse json \<in>
           {Inl SyntaxError, Inl TypeError, Inl (Thrown ''golangci-lint returned invalid json'')}"
  using assms
proof
  assume "parse json = None"
  then show ?thesis by (simp add: parseOutput_def)
next
  assume "\<exists>v. parse json = Some v
                \<and> (case getProp v ''Report'' of Inl e \<Rightarrow> True | Inr r \<Rightarrow> \<not> truthy r)"
  then obtain v where v: "parse json = Some v"
    and r: "case getProp v ''Report'' of Inl e \<Rightarrow> True | Inr r \<Rightarrow> \<not> truthy r"
    by blast
  show ?thesis
  proof (cases "getProp v ''Report''")
    case (Inl e)
    then have "e = TypeError" by (rule getProp_Inl)
    with v Inl show ?thesis by (simp add: parseOutput_def)
  next
    case (Inr report)
    with r have "\<not> truthy report" by simp
    with v Inr show ?thesis by (simp add: parseOutput_def)
  qed
qed

theorem parseOutput_rejects_witness:
  "parseOutput (\<lambda>s. None) ''not json'' = Inl SyntaxError
   \<and> parseOutput (\<lambda>s. Some JNull) ''null'' = Inl TypeError
   \<and> parseOutput (\<lambda>s. Some (JObj [(''Issues'', JArr [exampleIssue])])) ''{}'' =
       Inl (Thrown ''golangci-lint returned invalid json'')"
  using parseOutput_rejects [of "\<lambda>s. None" "''not json''"]
    parseOutput_rejects [of "\<lambda>s. Some JNull" "''null''"]
    parseOutput_rejects [of "\<lambda>s. Some (JObj [(''Issues'', JArr [exampleIssue])])" "''{}''"]
  by (simp add: parseOutput_def lookupProp_def Object_prototype_def)


section \<open>The failure gate\<close>

lemma failureSeverity_range: "failureSeverity h \<in> {0, 1, 2}"
  by (simp add: failureSeverity_def LintSeverity_def DefaultFailureSeverity_def Let_def)

lemma severityAtLeast_mono:
  "n \<le> m \<Longrightarrow> severityAtLeast sev m = Inr True \<Longrightarrow> severityAtLeast sev n = Inr True"
  by (auto simp: severityAtLeast_def bind_Inr_iff split: jsval.splits)

lemma severityAtLeast_defined:
  "severityAtLeast sev m = Inr b \<Longrightarrow> \<exists>b'. severityAtLeast sev n = Inr b'"
  by (auto simp: severityAtLeast_def bind_Inr_iff)

lemma anyFailing_mono:
  "n \<le> m \<Longrightarrow> anyFailing m xs = Inr True \<Longrightarrow> anyFailing n xs = Inr True"
proof (induction xs)
  case Nil
  then show ?case by simp
next
  case (Cons x xs)
  from Cons.prems(2) obtain sev b where sev: "getProp x ''Severity'' = Inr sev"
    and b: "severityAtLeast sev m = Inr b"
    and rest: "(if b then Inr True else anyFailing m xs) = Inr True"
    by (auto simp: bind_Inr_iff)
  from b obtain b' where b': "severityAtLeast sev n = Inr b'"
    using severityAtLeast_defined by blast
  show ?case
  proof (cases b')
    case True
    with sev b' show ?thesis by simp
  next
    case False
    with Cons.prems(1) b b' have "\<not> b"
      using severityAtLeast_mono by fastforce
    with rest have "anyFailing m xs = Inr True" by simp
    with Cons.IH Cons.prems(1) have "anyFailing n xs = Inr True" by simp
    with sev b' False show ?thesis by simp
  qed
qed

lemma defaultSeverityText:
  "ToString (lookupProp LintSeverity (showInt DefaultFailureSeverity)) = Inr ''notice''"
  by code_simp

lemma severityWarning_Inr: "\<exists>logged. severityWarning h = Inr logged"
  by (simp add: severityWarning_def Let_def defaultSeverityText)

lemma hasFailingIssues_snd:
  "snd (hasFailingIssues h issues) =
     bind (getProp issues ''length'') (\<lambda>len.
       if truthy len then
         (if failureSeverity h \<le> 0 then Inr True
          else (case issues of
                  JArr xs \<Rightarrow> anyFailing (failureSeverity h) xs
                | JStr s \<Rightarrow> anyFailing (failureSeverity h) (map (\<lambda>c. JStr [c]) s)
                | _ \<Rightarrow> Inl TypeError))
       else Inr False)"
  using severityWarning_Inr [of h] by (auto simp: hasFailingIssues_def)

lemma failureSeverity_exampleHost: "failureSeverity exampleHost = 1"
  by code_simp

lemma failureSeverity_strictHost: "failureSeverity strictHost = 2"
  by code_simp

lemma hasFailingIssues_strictHost:
  "snd (hasFailingIssues strictHost (JArr [exampleIssue])) = Inr True"
  by code_simp

text \<open>
  Claim C6.  For a fixed value of issues and two hosts whose resolved thresholds are
  ordered, the lower one first: when \<open>hasFailingIssues\<close> returns true at the higher
  threshold, it returns true at the lower one.  Raising the threshold never turns a
  false result into a true one.
\<close>

theorem hasFailingIssues_monotone:
  assumes "failureSeverity h1 \<le> failureSeverity h2"
    and "snd (hasFailingIssues h2 issues) = Inr True"
  shows "snd (hasFailingIssues h1 issues) = Inr True"
proof -
  from assms(2) obtain len where len: "getProp issues ''length'' = Inr len" "truthy len"
    and r: "(if failureSeverity h2 \<le> 0 then Inr True
             else (case issues of
                     JArr xs \<Rightarrow> anyFailing (failureSeverity h2) xs
                   | JStr s \<Rightarrow> anyFailing (failureSeverity h2) (map (\<lambda>c. JStr [c]) s)
                   | _ \<Rightarrow> Inl TypeError)) = Inr True"
    by (auto simp: hasFailingIssues_snd bind_Inr_iff split: if_splits)
  show ?thesis
  proof (cases "failureSeverity h1 \<le> 0")
    case True
    with len show ?thesis by (simp add: hasFailingIssues_snd)
  next
    case False
    with assms(1) have "\<not> failureSeverity h2 \<le> 0" by simp
    with r assms(1) have "(case issues of
                   JArr xs \<Rightarrow> anyFailing (failureSeverity h1) xs
                 | JStr s \<Rightarrow> anyFailing (failureSeverity h1) (map (\<lambda>c. JStr [c]) s)
                 | _ \<Rightarrow> Inl TypeError) = Inr True"
      by (auto split: jsval.splits intro: anyFailing_mono)
    with len False show ?thesis by (simp add: hasFailingIssues_snd)
  qed
qed

theorem hasFailingIssues_monotone_witness:
  "failureSeverity exampleHost = 1 \<and> failureSeverity strictHost = 2
   \<and> snd (hasFailingIssues strictHost (JArr [exampleIssue])) = Inr True
   \<and> snd (hasFailingIssues exampleHost (JArr [exampleIssue])) = Inr True"
  using hasFailingIssues_monotone [of exampleHost strictHost "JArr [exampleIssue]"]
  by (simp add: failureSeverity_exampleHost failureSeverity_strictHost
      hasFailingIssues_strictHost)


section \<open>The annotation publisher\<close>

lemma annotation_exampleIssue: "annotation exampleIssue = Inr exampleAnnotation"
  unfolding annotation_def exampleIssue_def exampleAnnotation_def
  by (simp add: lookupProp_def Object_prototype_def)

lemma annotation_exampleRangeIssue: "annotation exampleRangeIssue = Inr exampleRangeAnnotation"
  unfolding annotation_def exampleRangeIssue_def exampleRangeAnnotation_def
  by (simp add: lookupProp_def Object_prototype_def joinLines_def)

text \<open>
  Claim C7.  For every issue that is mapped to an annotation: the start line is the line
  of the issue; without a line range, the end line is that line too, and the two column
  fields are both the column when one was reported (a column other than \<open>0\<close>) and both
  absent otherwise; with a line range, the end line is the \<open>To\<close> of the range and the
  two column fields are absent.
\<close>

theorem annotation_lines_and_columns:
  assumes "annotation issue = Inr a"
  shows "\<exists>pos line lineRange column.
           getProp issue ''Pos'' = Inr pos \<and> getProp pos ''Line'' = Inr line
         \<and> getProp pos ''Column'' = Inr column
         \<and> getProp issue ''LineRange'' = Inr lineRange
         \<and> start_line a = line
         \<and> (if lineRange = JUndefined
             then end_line a = line
                \<and> (if truthy column
                    then start_column a = Some column \<and> end_column a = Some column
                    else start_column a = None \<and> end_column a = None)
             else getProp lineRange ''To'' = Inr (end_line a)
                \<and> start_column a = None \<and> end_column a = None)"
proof -
  from assms obtain pos filename line fromLinter msg severity lineRange a' replacement where
    pos: "getProp issue ''Pos'' = Inr pos"
    and line: "getProp pos ''Line'' = Inr line"
    and lr: "getProp issue ''LineRange'' = Inr lineRange"
    and a': "(if lineRange \<noteq> JUndefined
           then bind (getProp lineRange ''To'') (\<lambda>to. Inr (\<lparr> path = filename, start_line = line, end_line = line,
               start_column = None, end_column = None,
               title = fromLinter, message = msg, annotation_level = severity,
               raw_details = None \<rparr>\<lparr>end_line := to\<rparr>))
           else bind (getProp pos ''Column'') (\<lambda>column.
                  Inr (if truthy column
                       then \<lparr> path = filename, start_line = line, end_line = line,
               start_column = None, end_column = None,
               title = fromLinter, message = msg, annotation_level = severity,
               raw_details = None \<rparr>\<lparr>start_column := Some column, end_column := Some column\<rparr>
                       else \<lparr> path = filename, start_line = line, end_line = line,
               start_column = None, end_column = None,
               title = fromLinter, message = msg, annotation_level = severity,
               raw_details = None \<rparr>))) = Inr a'"
    and a: "(if replacement \<noteq> JNull
       then bind (getProp replacement ''NewLines'') (\<lambda>newLines.
            bind (joinLines newLines) (\<lambda>text.
              Inr (a'\<lparr>raw_details :=
                        Some (replicate 3 (CHR 0x60) @ ''suggestion'' @ [CHR 0x0A] @ text
                              @ [CHR 0x0A] @ replicate 3 (CHR 0x60))\<rparr>)))
       else Inr a') = Inr a"
    unfolding annotation_def Let_def bind_Inr_iff by blast
  from pos obtain column where col: "getProp pos ''Column'' = Inr column"
    using line by (cases pos) simp_all
  from a have same: "start_line a = start_line a'" "end_line a = end_line a'"
    "start_column a = start_column a'" "end_column a = end_column a'"
    by (auto simp: bind_Inr_iff split: if_splits)
  from a' col have "start_line a' = line
         \<and> (if lineRange = JUndefined
             then end_line a' = line
                \<and> (if truthy column
                    then start_column a' = Some column \<and> end_column a' = Some column
                    else start_column a' = None \<and> end_column a' = None)
             else getProp lineRange ''To'' = Inr (end_line a')
                \<and> start_column a' = None \<and> end_column a' = None)"
    by (auto simp: bind_Inr_iff split: if_splits)
  with pos line lr col same show ?thesis by auto
qed

theorem annotation_lines_and_columns_witness:
  "annotation exampleIssue = Inr exampleAnnotation
   \<and> getProp exampleIssue ''LineRange'' = Inr JUndefined
   \<and> start_line exampleAnnotation = JNum 3 ''3'' \<and> end_line exampleAnnotation = JNum 3 ''3''
   \<and> start_column exampleAnnotation = Some (JNum 7 ''7'')
   \<and> end_column exampleAnnotation = Some (JNum 7 ''7'')
   \<and> annotation exampleRangeIssue = Inr exampleRangeAnnotation
   \<and> getProp exampleRangeIssue ''LineRange'' = Inr (JObj [(''From'', JNum 10 ''10''), (''To'', JNum 12 ''12'')])
   \<and> start_line exampleRangeAnnotation = JNum 10 ''10'' \<and> end_line exampleRangeAnnotation = JNum 12 ''12''
   \<and> start_column exampleRangeAnnotation = None \<and> end_column exampleRangeAnnotation = None"
proof -
  have "getProp exampleIssue ''LineRange'' = Inr JUndefined"
    by (simp add: exampleIssue_def lookupProp_def Object_prototype_def)
  moreover have "start_line exampleAnnotation = JNum 3 ''3'' \<and> end_line exampleAnnotation = JNum 3 ''3''
     \<and> start_column exampleAnnotation = Some (JNum 7 ''7'')
     \<and> end_column exampleAnnotation = Some (JNum 7 ''7'')"
    by (simp add: exampleAnnotation_def)
  moreover have "getProp exampleRangeIssue ''LineRange'' =
      Inr (JObj [(''From'', JNum 10 ''10''), (''To'', JNum 12 ''12'')])"
    by (simp add: exampleRangeIssue_def lookupProp_def)
  moreover have "start_line exampleRangeAnnotation = JNum 10 ''10''
     \<and> end_line exampleRangeAnnotation = JNum 12 ''12''
     \<and> start_column exampleRangeAnnotation = None \<and> end_column exampleRangeAnnotation = None"
    by (simp add: exampleRangeAnnotation_def)
  ultimately show ?thesis
    using annotation_lines_and_columns [OF annotation_exampleIssue]
      annotation_lines_and_columns [OF annotation_exampleRangeIssue]
      annotation_exampleIssue annotation_exampleRangeIssue
    by simp
qed

lemma ceiling_chunks:
  "\<lceil>(of_nat n :: rat) / of_nat chunkSize\<rceil> = int ((n + 49) div 50)"
proof -
  have "\<lceil>(of_nat n :: rat) / of_nat chunkSize\<rceil> = \<lceil>(of_int (int n) :: rat) / of_int 50\<rceil>"
    by (simp add: chunkSize_def)
  also have "\<dots> = - (- int n div 50)"
    by (rule ceiling_divide_eq_div)
  also have "\<dots> = int ((n + 49) div 50)"
    by (simp add: zdiv_int)
  finally show ?thesis .
qed

lemma ceil_chunks: "nat \<lceil>(of_nat n :: rat) / of_nat chunkSize\<rceil> = (n + 49) div 50"
  by (simp add: ceiling_chunks)

lemma concat_slices:
  "0 < k \<Longrightarrow> concat (map (\<lambda>i. slice xs (i * k) (i * k + k)) [0 ..< m]) = take (m * k) xs"
proof (induction m)
  case 0
  then show ?case by simp
next
  case (Suc m)
  have "take (m * k) xs @ take k (drop (m * k) xs) = take (m * k + k) xs"
    by (simp add: take_add)
  with Suc show ?case by (simp add: slice_def add.commute)
qed

lemma chunks_concat: "concat (chunks xs) = xs"
proof -
  have "length xs \<le> ((length xs + 49) div 50) * 50" by presburger
  then show ?thesis
    unfolding chunks_def ceil_chunks
    using concat_slices [of chunkSize xs "(length xs + 49) div 50"]
    by (simp add: chunkSize_def)
qed

lemma chunks_length: "length (chunks xs) = (length xs + 49) div 50"
  by (simp add: chunks_def ceil_chunks)

lemma chunks_size: "c \<in> set (chunks xs) \<Longrightarrow> length c \<le> 50"
  by (auto simp: chunks_def slice_def chunkSize_def)

lemma chunks_sum: "sum_list (map length (chunks xs)) = length xs"
proof -
  have "sum_list (map length (chunks xs)) = length (concat (chunks xs))"
    by (simp add: length_concat)
  then show ?thesis by (simp add: chunks_concat)
qed

lemma chunks_51: "chunks (replicate 51 a) = [replicate 50 a, [a]]"
proof -
  have "[0 ..< (2::nat)] = [0, 1]" by (simp add: upt_rec)
  then show ?thesis
    unfolding chunks_def ceil_chunks by (simp add: slice_def chunkSize_def)
qed

lemma annotateLintIssues_51:
  "annotateLintIssues exampleHost (JArr (replicate 51 exampleIssue)) =
     ([ChecksGet, ChecksUpdate ''lint'' (replicate 50 exampleAnnotation),
       ChecksUpdate ''lint'' [exampleAnnotation]], Inr ())"
  by (simp add: annotateLintIssues_def getInputRequired_def exampleHost_def
      mapE_replicate [of annotation, OF annotation_exampleIssue] chunks_51)

text \<open>
  Claim C8.  When a list of \<open>n\<close> issues is published, each issue is mapped to its
  annotation, in order, and after the request for the check-run the only calls are the
  updates, one for each batch: there are \<open>ceil(n / 50)\<close> batches, each of at most 50
  annotations, their sizes sum to \<open>n\<close>, and the batches, concatenated in the order in
  which they are sent, are the list of annotations.
\<close>

theorem annotateLintIssues_batches:
  assumes "annotateLintIssues h (JArr issues) = (effects, Inr ())"
  shows "\<exists>currentTitle githubAnnotations.
           list_all2 (\<lambda>issue a. annotation issue = Inr a) issues githubAnnotations
         \<and> effects = ChecksGet # map (ChecksUpdate currentTitle) (chunks githubAnnotations)
         \<and> int (length (chunks githubAnnotations)) = \<lceil>(of_nat (length issues) :: rat) / 50\<rceil>
         \<and> (\<forall>c \<in> set (chunks githubAnnotations). length c \<le> 50)
         \<and> sum_list (map length (chunks githubAnnotations)) = length issues
         \<and> concat (chunks githubAnnotations) = githubAnnotations"
proof -
  from assms obtain currentTitle githubAnnotations where
    m: "mapE annotation issues = Inr githubAnnotations"
    and e: "effects = ChecksGet # map (ChecksUpdate currentTitle) (chunks githubAnnotations)"
    by (auto simp: annotateLintIssues_def split: sum.splits)
  from m have l: "length githubAnnotations = length issues" by (rule mapE_length)
  have "int (length (chunks githubAnnotations)) = \<lceil>(of_nat (length issues) :: rat) / 50\<rceil>"
    using ceiling_chunks [of "length issues"] by (simp add: chunks_length l chunkSize_def)
  moreover have "\<forall>c \<in> set (chunks githubAnnotations). length c \<le> 50"
    using chunks_size by blast
  moreover have "sum_list (map length (chunks githubAnnotations)) = length issues"
    by (simp add: chunks_sum l)
  ultimately show ?thesis
    using mapE_list_all2 [OF m] e chunks_concat by blast
qed

theorem annotateLintIssues_batches_witness:
  "annotateLintIssues exampleHost (JArr (replicate 51 exampleIssue)) =
     ([ChecksGet, ChecksUpdate ''lint'' (replicate 50 exampleAnnotation),
       ChecksUpdate ''lint'' [exampleAnnotation]], Inr ())
   \<and> \<lceil>(of_nat (length (replicate 51 exampleIssue)) :: rat) / 50\<rceil> = 2
   \<and> concat [replicate 50 exampleAnnotation, [exampleAnnotation]] =
       replicate 51 exampleAnnotation"
proof -
  have "\<lceil>(51::rat) / 50\<rceil> = 2" by (simp add: ceiling_eq_iff)
  moreover have "replicate 50 exampleAnnotation @ [exampleAnnotation] =
      replicate 51 exampleAnnotation"
  proof -
    have "(51::nat) = Suc 50" by simp
    then have "replicate 51 exampleAnnotation =
        exampleAnnotation # replicate 50 exampleAnnotation"
      by (simp only: replicate_Suc)
    then show ?thesis by (simp add: replicate_append_same)
  qed
  ultimately show ?thesis
    using annotateLintIssues_batches [OF annotateLintIssues_51]
    by (simp add: annotateLintIssues_51)
qed


section \<open>The execution driver\<close>

lemma gate_fatal:
  "1 < c \<Longrightarrow>
   gate h c lintOutput = ([], Inl (Thrown (''golangci-lint exit with code '' @ showInt c)))"
  by (simp add: gate_def)

lemma printOutput_shape:
  assumes "(if stdout res \<noteq> [] then processOutput h (stdout res) else ([], Inr JUndefined))
           = (es, r)"
  shows "\<exists>c lintOutput m.
           printOutput h res = es @ [SetFailed m]
         \<or> printOutput h res =
             es @ (if stderr res \<noteq> [] then [Info (stderr res)] else [])
             @ fst (gate h c lintOutput) @ [SetFailed m]
         \<or> printOutput h res =
             es @ (if stderr res \<noteq> [] then [Info (stderr res)] else [])
             @ fst (gate h c lintOutput) @ [Info ''golangci-lint found no blocking issues'']"
proof (cases r)
  case (Inl e)
  with assms have "printOutput h res =
      es @ [SetFailed (''there was an error processing golangci-lint output: '' @ errorText e)]"
    by (simp add: printOutput_def)
  then show ?thesis by blast
next
  case (Inr lintOutput)
  note r = this
  obtain checked g where
    g: "gate h (case code res of Some c \<Rightarrow> if c \<noteq> 0 then c else 0 | None \<Rightarrow> 0) lintOutput
        = (checked, g)"
    by (cases "gate h (case code res of Some c \<Rightarrow> if c \<noteq> 0 then c else 0 | None \<Rightarrow> 0)
                 lintOutput")
  show ?thesis
  proof (cases g)
    case (Inl e)
    with assms r g have "printOutput h res =
        es @ (if stderr res \<noteq> [] then [Info (stderr res)] else [])
        @ fst (gate h (case code res of Some c \<Rightarrow> if c \<noteq> 0 then c else 0 | None \<Rightarrow> 0)
                 lintOutput)
        @ [SetFailed (errorText e)]"
      by (simp add: printOutput_def)
    then show ?thesis by blast
  next
    case (Inr u)
    with assms r g have "printOutput h res =
        es @ (if stderr res \<noteq> [] then [Info (stderr res)] else [])
        @ fst (gate h (case code res of Some c \<Rightarrow> if c \<noteq> 0 then c else 0 | None \<Rightarrow> 0)
                 lintOutput)
        @ [Info ''golangci-lint found no blocking issues'']"
      by (simp add: printOutput_def)
    then show ?thesis by blast
  qed
qed

lemma printOutput_starts:
  "stdout res \<noteq> [] \<Longrightarrow>
   \<exists>rest. printOutput h res = fst (processOutput h (stdout res)) @ rest"
  using printOutput_shape [of res h "fst (processOutput h (stdout res))"
      "snd (processOutput h (stdout res))"]
  by auto

text \<open>
  Claim C9.  When the exit code is greater than 1, the last thing \<open>printOutput\<close> does is
  to mark the run failed, whatever the standard output holds: with the message that
  names the exit code, or with the error of processing the output.  When the exit code
  is 1 and the standard output is empty, the run is marked failed with the message of
  the unexpected state, after the standard error, if any, is logged.
\<close>

theorem printOutput_exit_codes:
  "(\<forall>c. code res = Some c \<and> 1 < c \<longrightarrow>
      (\<exists>es m. printOutput h res = es @ [SetFailed m]
         \<and> (m = ''golangci-lint exit with code '' @ showInt c
            \<or> (\<exists>e. m = ''there was an error processing golangci-lint output: ''
                       @ errorText e))))
   \<and> (code res = Some 1 \<and> stdout res = [] \<longrightarrow>
        printOutput h res =
          (if stderr res \<noteq> [] then [Info (stderr res)] else [])
          @ [SetFailed
               ''unexpected state, golangci-lint exited with 1, but provided no lint output''])"
proof (intro conjI allI impI)
  fix c assume c: "code res = Some c \<and> 1 < c"
  obtain es r where
    p: "(if stdout res \<noteq> [] then processOutput h (stdout res) else ([], Inr JUndefined))
        = (es, r)"
    by (cases "if stdout res \<noteq> [] then processOutput h (stdout res)
               else ([], Inr JUndefined)")
  show "\<exists>es m. printOutput h res = es @ [SetFailed m]
         \<and> (m = ''golangci-lint exit with code '' @ showInt c
            \<or> (\<exists>e. m = ''there was an error processing golangci-lint output: ''
                       @ errorText e))"
  proof (cases r)
    case (Inl e)
    with p c have "printOutput h res =
        es @ [SetFailed (''there was an error processing golangci-lint output: ''
                         @ errorText e)]"
      by (simp add: printOutput_def)
    then show ?thesis by blast
  next
    case (Inr lintOutput)
    with p c have "printOutput h res =
        (es @ (if stderr res \<noteq> [] then [Info (stderr res)] else []))
        @ [SetFailed (''golangci-lint exit with code '' @ showInt c)]"
      by (simp add: printOutput_def gate_fatal errorText_def)
    then show ?thesis by blast
  qed
next
  assume "code res = Some 1 \<and> stdout res = []"
  then show "printOutput h res =
          (if stderr res \<noteq> [] then [Info (stderr res)] else [])
          @ [SetFailed
               ''unexpected state, golangci-lint exited with 1, but provided no lint output'']"
    by (simp add: printOutput_def gate_def errorText_def)
qed

lemma printOutput_fatal_example:
  "printOutput exampleHost \<lparr> stdout = [], stderr = [], code = Some 3 \<rparr> =
     [SetFailed ''golangci-lint exit with code 3'']"
  by code_simp

lemma printOutput_unexpected_example:
  "printOutput exampleHost \<lparr> stdout = [], stderr = ''boom'', code = Some 1 \<rparr> =
     [Info ''boom'',
      SetFailed ''unexpected state, golangci-lint exited with 1, but provided no lint output'']"
  by code_simp

theorem printOutput_exit_codes_witness:
  "printOutput exampleHost \<lparr> stdout = [], stderr = [], code = Some 3 \<rparr> =
     [SetFailed ''golangci-lint exit with code 3'']
   \<and> printOutput exampleHost \<lparr> stdout = [], stderr = ''boom'', code = Some 1 \<rparr> =
     [Info ''boom'',
      SetFailed ''unexpected state, golangci-lint exited with 1, but provided no lint output'']"
  using printOutput_exit_codes [of "\<lparr> stdout = [], stderr = [], code = Some 3 \<rparr>" exampleHost]
    printOutput_exit_codes [of "\<lparr> stdout = [], stderr = ''boom'', code = Some 1 \<rparr>"
      exampleHost]
  by (simp add: printOutput_fatal_example printOutput_unexpected_example)

lemma logLintIssue_one_line: "logLintIssue issue = Inr es \<Longrightarrow> \<exists>line. es = [Info line]"
  by (auto simp: logLintIssue_def bind_Inr_iff Let_def split: if_splits)

lemma forEachE_logLintIssue_no_call:
  "e \<in> set (fst (forEachE logLintIssue xs)) \<Longrightarrow> \<not> isApiCall e"
proof (induction xs arbitrary: e)
  case Nil
  then show ?case by simp
next
  case (Cons x xs)
  show ?case
  proof (cases "logLintIssue x")
    case (Inl err)
    with Cons.prems show ?thesis by simp
  next
    case (Inr es)
    then have "\<forall>e\<in>set es. \<not> isApiCall e"
      using logLintIssue_one_line by fastforce
    with Cons Inr show ?thesis
      by (auto split: prod.splits)
  qed
qed

lemma forEachE_prefix:
  "mapE f ys = Inr logged \<Longrightarrow> \<exists>rest. fst (forEachE f (ys @ zs)) = concat logged @ rest"
proof (induction ys arbitrary: logged)
  case Nil
  then show ?case by simp
next
  case (Cons y ys)
  from Cons.prems obtain es logged' where y: "f y = Inr es"
    and ys: "mapE f ys = Inr logged'" and l: "logged = es # logged'"
    by (auto simp: bind_Inr_iff)
  from Cons.IH [OF ys] obtain rest where "fst (forEachE f (ys @ zs)) = concat logged' @ rest"
    by blast
  with y l show ?case
    by (auto split: prod.splits)
qed

lemma logLintIssues_no_call: "e \<in> set (fst (logLintIssues issues)) \<Longrightarrow> \<not> isApiCall e"
  using forEachE_logLintIssue_no_call
  by (cases issues) (auto simp: logLintIssues_def)

lemma severityWarning_no_call:
  "severityWarning h = Inr logged \<Longrightarrow> e \<in> set logged \<Longrightarrow> \<not> isApiCall e"
  by (auto simp: severityWarning_def Let_def bind_Inr_iff split: if_splits)

lemma hasFailingIssues_no_call:
  "e \<in> set (fst (hasFailingIssues h issues)) \<Longrightarrow> \<not> isApiCall e"
  using severityWarning_no_call [of h]
  by (auto simp: hasFailingIssues_def split: sum.splits)

lemma gate_no_call: "e \<in> set (fst (gate h c lintOutput)) \<Longrightarrow> \<not> isApiCall e"
proof -
  assume e: "e \<in> set (fst (gate h c lintOutput))"
  show ?thesis
  proof (cases "c = 1 \<and> truthy lintOutput")
    case False
    with e show ?thesis by (auto simp: gate_def split: if_splits)
  next
    case True
    note t = this
    show ?thesis
    proof (cases "getProp lintOutput ''Issues''")
      case (Inl err)
      with e t show ?thesis by (simp add: gate_def)
    next
      case (Inr issues)
      obtain logged r where hf: "hasFailingIssues h issues = (logged, r)"
        by (cases "hasFailingIssues h issues")
      with e t Inr have "e \<in> set logged"
        by (cases r) (simp_all add: gate_def)
      with hf show ?thesis
        using hasFailingIssues_no_call [of e h issues] by simp
    qed
  qed
qed

lemma processOutput_other_fst:
  assumes "eventName h \<noteq> ''pull_request''" and "eventName h \<noteq> ''push''"
  shows "fst (processOutput h out) = []
       \<or> (\<exists>lintOutput issues. parseOutput (JSON_parse h) out = Inr lintOutput
            \<and> getProp lintOutput ''Issues'' = Inr issues
            \<and> fst (processOutput h out) = fst (logLintIssues issues))"
proof (cases "parseOutput (JSON_parse h) out")
  case (Inl e)
  then show ?thesis by (simp add: processOutput_def)
next
  case (Inr lintOutput)
  note parsed = this
  show ?thesis
  proof (cases "getProp lintOutput ''Issues''")
    case (Inl e)
    with parsed show ?thesis by (simp add: processOutput_def)
  next
    case (Inr issues)
    obtain logged r where l: "logLintIssues issues = (logged, r)"
      by (cases "logLintIssues issues")
    with parsed Inr assms have "fst (processOutput h out) = logged"
      by (cases r) (simp_all add: processOutput_def)
    with parsed Inr l show ?thesis by simp
  qed
qed

lemma processOutput_other_no_call:
  assumes "eventName h \<noteq> ''pull_request''" and "eventName h \<noteq> ''push''"
    and "e \<in> set (fst (processOutput h out))"
  shows "\<not> isApiCall e"
  using processOutput_other_fst [OF assms(1,2), of out] assms(3) logLintIssues_no_call
  by auto

lemma processOutput_logs:
  assumes "parseOutput (JSON_parse h) out = Inr lintOutput"
    and "getProp lintOutput ''Issues'' = Inr issues"
    and "eventName h \<noteq> ''pull_request''" and "eventName h \<noteq> ''push''"
  shows "fst (processOutput h out) = fst (logLintIssues issues)"
proof -
  obtain logged r where l: "logLintIssues issues = (logged, r)"
    by (cases "logLintIssues issues")
  with assms show ?thesis
    by (cases r) (simp_all add: processOutput_def)
qed

text \<open>
  Claim C10.  Under an event that is neither \<open>pull_request\<close> nor \<open>push\<close>, nothing that
  \<open>printOutput\<close> does is a call to the check-run API (neither the request for the
  check-run nor an update with annotations), and the parsed issues are logged: when the
  standard output parses to a report, then for every run of issues at the head of its
  \<open>Issues\<close> that can all be logged (all of them, when none fails), what \<open>printOutput\<close>
  does begins with these log lines, exactly one for each issue, in the order of the
  issues.
\<close>

theorem printOutput_other_events:
  assumes "eventName h \<noteq> ''pull_request''" and "eventName h \<noteq> ''push''"
  shows "(\<forall>e \<in> set (printOutput h res). \<not> isApiCall e)
       \<and> (\<forall>lintOutput ys zs logged.
            stdout res \<noteq> [] \<and> parseOutput (JSON_parse h) (stdout res) = Inr lintOutput
            \<and> getProp lintOutput ''Issues'' = Inr (JArr (ys @ zs))
            \<and> mapE logLintIssue ys = Inr logged
            \<longrightarrow> list_all2 (\<lambda>issue es. logLintIssue issue = Inr es \<and> (\<exists>line. es = [Info line]))
                  ys logged
                \<and> (\<exists>rest. printOutput h res = concat logged @ rest))"
proof (intro conjI ballI allI impI)
  fix e assume e: "e \<in> set (printOutput h res)"
  obtain es r where
    p: "(if stdout res \<noteq> [] then processOutput h (stdout res) else ([], Inr JUndefined))
        = (es, r)"
    by (cases "if stdout res \<noteq> [] then processOutput h (stdout res)
               else ([], Inr JUndefined)")
  have es: "\<forall>x\<in>set es. \<not> isApiCall x"
  proof (cases "stdout res \<noteq> []")
    case True
    with p have "es = fst (processOutput h (stdout res))" by simp
    then show ?thesis using processOutput_other_no_call [OF assms] by blast
  next
    case False
    with p show ?thesis by simp
  qed
  from printOutput_shape [OF p] obtain c lintOutput m where
    "printOutput h res = es @ [SetFailed m]
         \<or> printOutput h res =
             es @ (if stderr res \<noteq> [] then [Info (stderr res)] else [])
             @ fst (gate h c lintOutput) @ [SetFailed m]
         \<or> printOutput h res =
             es @ (if stderr res \<noteq> [] then [Info (stderr res)] else [])
             @ fst (gate h c lintOutput) @ [Info ''golangci-lint found no blocking issues'']"
    by blast
  with e es gate_no_call [of e h c lintOutput] show "\<not> isApiCall e"
    by (auto split: if_splits)
next
  fix lintOutput ys zs logged
  assume a: "stdout res \<noteq> [] \<and> parseOutput (JSON_parse h) (stdout res) = Inr lintOutput
            \<and> getProp lintOutput ''Issues'' = Inr (JArr (ys @ zs))
            \<and> mapE logLintIssue ys = Inr logged"
  then have "list_all2 (\<lambda>issue es. logLintIssue issue = Inr es) ys logged"
    using mapE_list_all2 by blast
  then show "list_all2 (\<lambda>issue es. logLintIssue issue = Inr es \<and> (\<exists>line. es = [Info line]))
              ys logged"
    using logLintIssue_one_line by (auto elim!: list_all2_mono)
next
  fix lintOutput ys zs logged
  assume a: "stdout res \<noteq> [] \<and> parseOutput (JSON_parse h) (stdout res) = Inr lintOutput
            \<and> getProp lintOutput ''Issues'' = Inr (JArr (ys @ zs))
            \<and> mapE logLintIssue ys = Inr logged"
  then have "fst (processOutput h (stdout res)) = fst (logLintIssues (JArr (ys @ zs)))"
    using processOutput_logs assms by blast
  moreover from a obtain rest where
    "fst (forEachE logLintIssue (ys @ zs)) = concat logged @ rest"
    using forEachE_prefix by blast
  ultimately have "fst (processOutput h (stdout res)) = concat logged @ rest"
    by (simp add: logLintIssues_def)
  with a show "\<exists>rest. printOutput h res = concat logged @ rest"
    using printOutput_starts [of res h] by auto
qed

lemma printOutput_scheduled:
  "printOutput scheduledHost scheduledRes =
     [Info ''::error::a.go:3:7 - unused (govet)'',
      Info ''::error::b.go:10-12 - format (gofmt)'',
      SetFailed ''issues found'']"
  by code_simp

lemma eventName_scheduled: "eventName scheduledHost = ''schedule''"
  by (simp add: scheduledHost_def)

lemma parseOutput_scheduled:
  "parseOutput (JSON_parse scheduledHost) (stdout scheduledRes) = Inr scheduledParsed"
  by code_simp

lemma Issues_scheduled:
  "getProp scheduledParsed ''Issues'' = Inr (JArr ([loggedIssue, loggedRangeIssue] @ []))"
  by code_simp

lemma logged_scheduled:
  "mapE logLintIssue [loggedIssue, loggedRangeIssue] =
     Inr [[Info ''::error::a.go:3:7 - unused (govet)''],
          [Info ''::error::b.go:10-12 - format (gofmt)'']]"
  by code_simp

theorem printOutput_other_events_witness:
  "eventName scheduledHost = ''schedule''
   \<and> stdout scheduledRes = ''{}''
   \<and> parseOutput (JSON_parse scheduledHost) (stdout scheduledRes) = Inr scheduledParsed
   \<and> getProp scheduledParsed ''Issues'' = Inr (JArr ([loggedIssue, loggedRangeIssue] @ []))
   \<and> mapE logLintIssue [loggedIssue, loggedRangeIssue] =
       Inr [[Info ''::error::a.go:3:7 - unused (govet)''],
            [Info ''::error::b.go:10-12 - format (gofmt)'']]
   \<and> printOutput scheduledHost scheduledRes =
       [Info ''::error::a.go:3:7 - unused (govet)'',
        Info ''::error::b.go:10-12 - format (gofmt)'',
        SetFailed ''issues found'']
   \<and> \<not> isApiCall (Info ''::error::a.go:3:7 - unused (govet)'')
   \<and> \<not> isApiCall (Info ''::error::b.go:10-12 - format (gofmt)'')
   \<and> \<not> isApiCall (SetFailed ''issues found'')"
proof -
  have ev: "eventName scheduledHost \<noteq> ''pull_request''" "eventName scheduledHost \<noteq> ''push''"
    by (simp_all add: eventName_scheduled)
  have out: "stdout scheduledRes = ''{}''" by (simp add: scheduledRes_def)
  note t = printOutput_other_events [OF ev, of scheduledRes]
  from t have "\<forall>e \<in> set (printOutput scheduledHost scheduledRes). \<not> isApiCall e" by blast
  moreover have "stdout scheduledRes \<noteq> []" by (simp add: out)
  with parseOutput_scheduled Issues_scheduled logged_scheduled
  have "\<exists>rest. printOutput scheduledHost scheduledRes =
      concat [[Info ''::error::a.go:3:7 - unused (govet)''],
              [Info ''::error::b.go:10-12 - format (gofmt)'']] @ rest"
    using t [THEN conjunct2, rule_format, of scheduledParsed
        "[loggedIssue, loggedRangeIssue]" "[]"
        "[[Info ''::error::a.go:3:7 - unused (govet)''],
          [Info ''::error::b.go:10-12 - format (gofmt)'']]"]
    by simp
  ultimately show ?thesis
    using eventName_scheduled out parseOutput_scheduled Issues_scheduled logged_scheduled
      printOutput_scheduled
    by simp
qed

lemma startsWith_dash: "startsWith arg ''-'' \<longleftrightarrow> (\<exists>rest. arg = CHR ''-'' # rest)"
  by (cases arg) (auto simp: startsWith_def)

text \<open>
  An argument name is found exactly when a token of the argument string reads, up to its
  first \<open>=\<close>, as one dash followed by the name.
\<close>

lemma userArgNames_member:
  "name \<in> set (userArgNames userArgs) \<longleftrightarrow>
     (\<exists>arg \<in> set (splitOn isWhiteSpace userArgs).
        takeWhile (\<lambda>c. c \<noteq> CHR ''='') arg = CHR ''-'' # name)"
  by (auto simp: userArgNames_def startsWith_dash image_iff)

text \<open>
  Claim C1.  A user who passes an output-format argument is to be refused before the
  tool is started.  The name of an argument is computed by removing the first dash only,
  so the token \<open>--out-format=xml\<close> has the name \<open>-out-format\<close>, which is not the name
  that is looked for: \<open>runLint\<close> does not fail, and starts the tool with both
  \<open>--out-format=json\<close> and \<open>--out-format=xml\<close> on its command line.
\<close>

theorem runLint_double_dash_out_format:
  "userArgNames ''--out-format=xml'' = [''-out-format'']
   \<and> runLint doubleDashHost ''golangci-lint'' [] =
       ([Info ''Running [golangci-lint run --out-format=json --out-format=xml] in [] ...'',
         Exec ''golangci-lint run --out-format=json --out-format=xml'' None,
         Info ''golangci-lint found no blocking issues'',
         Info ''Ran golangci-lint in 0ms''],
        Inr ())"
  by code_simp

text \<open>With a single dash the argument is found, and nothing is started.\<close>

lemma runLint_single_dash_out_format:
  "userArgNames ''-out-format=xml'' = [''out-format'']
   \<and> runLint singleDashHost ''golangci-lint'' [] =
       ([], Inl (Error (''please, don't change out-format for golangci-lint: ''
                        @ ''it can be broken in a future'')))"
  by code_simp

end
